theory Spec2Isabelle
  imports Complex_Main "HOL-Library.Word"
begin

section \<open>The image transformer of the TorchServe sample\<close>

text \<open>
  The module \<^verbatim>\<open>image_transformer.py\<close> is glue around four libraries: \<^verbatim>\<open>base64\<close>,
  PIL, torchvision and \<^verbatim>\<open>json\<close>, and around the HTTP client of its base class
  \<^verbatim>\<open>kserve.Model\<close>. The embedding keeps the module's own control flow, its reads and
  writes of the request dictionaries, its exceptions and its outbound HTTP call, and takes
  the library functions as parameters: the module's functions assume nothing about what they
  compute. Where a property is about the pixels or about what the decoder accepts, the
  parameters are instantiated with a model of the three imaging calls and of the decoder.
  Calls of \<^verbatim>\<open>logging.info\<close> write to the log only and are left out.
\<close>

subsection \<open>Values and exceptions\<close>

text \<open>
  A request body is a JSON-shaped Python value. A dictionary is an association list in
  insertion order; a lookup reads the first entry of a key and an assignment overwrites it
  in place, so a list with a repeated key behaves as the dictionary of its first entries.
  A float is written as the real number it denotes; the model never computes with one.
\<close>

datatype jv =
    JNull
  | JBool bool
  | JInt int
  | JFloat real
  | JStr string
  | JList "jv list"
  | JDict "(string \<times> jv) list"

type_synonym bytes = "8 word list"

text \<open>
  The exceptions the module raises itself or provokes by subscripting and iterating, and
  \<open>Raised c\<close> for an exception of class \<open>c\<close> coming out of a library call.
\<close>

datatype error =
    KeyError string
  | TypeError
  | ValueError
  | IndexError
  | NotImplementedError
  | HTTPError int string
  | Raised string

subsection \<open>Subscripting, assignment and iteration\<close>

text \<open>\<^verbatim>\<open>obj[key]\<close> for a string key: only a dictionary can be read that way.\<close>

fun getitem :: "jv \<Rightarrow> string \<Rightarrow> error + jv" where
  "getitem (JDict kvs) k = (case map_of kvs k of None \<Rightarrow> Inl (KeyError k) | Some v \<Rightarrow> Inr v)"
| "getitem _ k = Inl TypeError"

text \<open>Assignment keeps the position of a key that is present and appends a new one.\<close>

fun dict_update :: "string \<Rightarrow> jv \<Rightarrow> (string \<times> jv) list \<Rightarrow> (string \<times> jv) list" where
  "dict_update k v [] = [(k, v)]"
| "dict_update k v (p # ps) = (if fst p = k then (k, v) # ps else p # dict_update k v ps)"

text \<open>\<^verbatim>\<open>obj[key] = v\<close> for a string key.\<close>

fun setitem :: "jv \<Rightarrow> string \<Rightarrow> jv \<Rightarrow> error + jv" where
  "setitem (JDict kvs) k v = Inr (JDict (dict_update k v kvs))"
| "setitem _ k v = Inl TypeError"

text \<open>
  \<^verbatim>\<open>for x in obj\<close>: a list gives its elements, a string its characters, a dictionary its
  keys; nothing else is iterable.
\<close>

fun iter :: "jv \<Rightarrow> error + jv list" where
  "iter (JList xs) = Inr xs"
| "iter (JStr s) = Inr (map (\<lambda>c. JStr [c]) s)"
| "iter (JDict kvs) = Inr (map (\<lambda>p. JStr (fst p)) kvs)"
| "iter _ = Inl TypeError"

subsection \<open>The libraries\<close>

text \<open>
  The library functions the module calls, as parameters. \<open>'v\<close> is the type of the objects
  of the imaging libraries (a PIL image or a torch tensor; Python does not tell them apart
  statically). Each call may raise. \<^verbatim>\<open>json.dumps\<close> is total: every value of \<open>jv\<close> is
  serialisable. \<^verbatim>\<open>io.BytesIO\<close> only wraps the byte string and is folded into
  \<open>Image_open\<close>.
\<close>

record 'v library =
  b64decode :: "jv \<Rightarrow> error + bytes"
  Image_open :: "bytes \<Rightarrow> error + 'v"
  ToTensor :: "'v \<Rightarrow> error + 'v"
  Normalize :: "real list \<Rightarrow> real list \<Rightarrow> 'v \<Rightarrow> error + 'v"
  tolist :: "'v \<Rightarrow> error + jv"
  json_dumps :: "jv \<Rightarrow> string"
  json_loads :: "string \<Rightarrow> error + jv"

text \<open>
  \<^verbatim>\<open>transforms.Compose(ts)(x)\<close> runs the transforms in order, each on the result of the one
  before; the first exception ends the run.
\<close>

fun Compose :: "('v \<Rightarrow> error + 'v) list \<Rightarrow> 'v \<Rightarrow> error + 'v" where
  "Compose [] x = Inr x"
| "Compose (t # ts) x = (case t x of Inl e \<Rightarrow> Inl e | Inr y \<Rightarrow> Compose ts y)"

definition image_processing :: "'v library \<Rightarrow> 'v \<Rightarrow> error + 'v" where
  "image_processing lib = Compose [ToTensor lib, Normalize lib [0.1307] [0.3081]]"

subsection \<open>The normalizer\<close>

text \<open>
  \<open>image_transform\<close> mutates its argument, so the model returns the instance as the call
  leaves it together with the call's outcome. The only write is the assignment of line 48,
  after everything that can raise.
\<close>

definition image_transform :: "'v library \<Rightarrow> jv \<Rightarrow> jv \<times> (error + jv)" where
  "image_transform lib instance =
     (case getitem instance ''data'' of
        Inl e \<Rightarrow> (instance, Inl e)
      | Inr d \<Rightarrow>
     (case b64decode lib d of
        Inl e \<Rightarrow> (instance, Inl e)
      | Inr byte_array \<Rightarrow>
     (case Image_open lib byte_array of
        Inl e \<Rightarrow> (instance, Inl e)
      | Inr img \<Rightarrow>
     (case image_processing lib img of
        Inl e \<Rightarrow> (instance, Inl e)
      | Inr t \<Rightarrow>
     (case tolist lib t of
        Inl e \<Rightarrow> (instance, Inl e)
      | Inr v \<Rightarrow>
     (case setitem instance ''data'' v of
        Inl e \<Rightarrow> (instance, Inl e)
      | Inr instance' \<Rightarrow> (instance', Inr instance')))))))"

subsection \<open>String formatting\<close>

text \<open>
  \<^verbatim>\<open>template.format(*args)\<close> for string arguments, on the fragment of the format language
  with numbered fields: \<^verbatim>\<open>{{\<close> and \<^verbatim>\<open>}}\<close> are literal braces, \<^verbatim>\<open>{12}\<close> is the argument of that
  index (IndexError when there is none), a brace that is not closed or not opened is a
  ValueError. Any other field is outside the fragment and reported as such; the module's
  one template has none.
\<close>

definition is_digit :: "char \<Rightarrow> bool" where
  "is_digit c = (48 \<le> (of_char c :: nat) \<and> (of_char c :: nat) \<le> 57)"

definition index_of_digits :: "string \<Rightarrow> nat" where
  "index_of_digits ds = foldl (\<lambda>n d. 10 * n + (of_char d - 48)) 0 ds"

function str_format :: "string \<Rightarrow> string list \<Rightarrow> error + string" where
  "str_format [] args = Inr []"
| "str_format (c # cs) args =
     (if c = CHR ''{'' then
        (if cs \<noteq> [] \<and> hd cs = CHR ''{'' then
           (case str_format (tl cs) args of Inl e \<Rightarrow> Inl e | Inr s \<Rightarrow> Inr (c # s))
         else
           (let field = takeWhile (\<lambda>d. d \<noteq> CHR ''}'') cs;
                rest = dropWhile (\<lambda>d. d \<noteq> CHR ''}'') cs
            in if rest = [] then Inl ValueError
               else if field \<noteq> [] \<and> list_all is_digit field then
                 (if index_of_digits field < length args then
                    (case str_format (tl rest) args of
                       Inl e \<Rightarrow> Inl e
                     | Inr s \<Rightarrow> Inr (args ! index_of_digits field @ s))
                  else Inl IndexError)
               else Inl (Raised ''format field outside the modelled fragment'')))
      else if c = CHR ''}'' then
        (if cs \<noteq> [] \<and> hd cs = CHR ''}'' then
           (case str_format (tl cs) args of Inl e \<Rightarrow> Inl e | Inr s \<Rightarrow> Inr (c # s))
         else Inl ValueError)
      else
        (case str_format cs args of Inl e \<Rightarrow> Inl e | Inr s \<Rightarrow> Inr (c # s)))"
  by pat_completeness auto
termination
proof (relation "measure (\<lambda>(s, args). length s)")
  show "wf (measure (\<lambda>(s, args). length s))" by simp
next
  fix c :: char and cs :: string and args :: "string list"
  assume "cs \<noteq> [] \<and> hd cs = CHR ''{''"
  then show "((tl cs, args), c # cs, args) \<in> measure (\<lambda>(s, args). length s)"
    by simp
next
  fix c :: char and cs :: string and args :: "string list" and field rest :: string
  assume r: "rest = dropWhile (\<lambda>d. d \<noteq> CHR ''}'') cs" and ne: "rest \<noteq> []"
  have "length rest \<le> length cs"
    unfolding r by (rule length_dropWhile_le)
  moreover have "length (tl rest) < length rest"
    using ne by (cases rest) simp_all
  ultimately show "((tl rest, args), c # cs, args) \<in> measure (\<lambda>(s, args). length s)"
    by simp
next
  fix c :: char and cs :: string and args :: "string list"
  assume "cs \<noteq> [] \<and> hd cs = CHR ''}''"
  then show "((tl cs, args), c # cs, args) \<in> measure (\<lambda>(s, args). length s)"
    by simp
next
  fix c :: char and cs :: string and args :: "string list"
  show "((cs, args), c # cs, args) \<in> measure (\<lambda>(s, args). length s)"
    by simp
qed

definition EXPLAINER_URL_FORMAT :: string where
  "EXPLAINER_URL_FORMAT = ''http://{0}/v1/models/{1}:explain''"

subsection \<open>The transformer object\<close>

text \<open>
  What a call of \<^verbatim>\<open>fetch\<close> on the HTTP client is given, and the two attributes of the
  response the module reads. The call passes no headers.
\<close>

record http_request =
  url :: string
  http_method :: string
  request_timeout :: int
  request_body :: string
  request_headers :: "(string \<times> string) list option"

record http_response =
  code :: int
  body :: string

text \<open>
  Modelled from the spec: the base class \<^verbatim>\<open>kserve.Model\<close> is not among the sources. Of it
  the model keeps the attribute \<open>name\<close>, set from the constructor's first argument, and the
  HTTP client, whose \<^verbatim>\<open>fetch\<close> answers a request with a response or raises (a timeout, a
  refused connection). The other attributes are the ones \<^verbatim>\<open>__init__\<close> assigns. The
  base class creates the client itself; the model's constructor is handed it.
\<close>

record transformer =
  name :: string
  predictor_host :: "string option"
  explainer_host :: "string option"
  timeout :: int
  http_client :: "http_request \<Rightarrow> error + http_response"

definition ImageTransformer_init ::
  "(http_request \<Rightarrow> error + http_response) \<Rightarrow> string \<Rightarrow> string option \<Rightarrow> transformer" where
  "ImageTransformer_init client n host =
     \<lparr>name = n, predictor_host = host, explainer_host = host, timeout = 100,
      http_client = client\<rparr>"

subsection \<open>preprocess\<close>

text \<open>
  The list comprehension of \<open>preprocess\<close>: the instances are transformed from left to
  right and the first exception ends the loop, leaving the instances before it transformed
  and the ones after it untouched.
\<close>

fun transform_each :: "'v library \<Rightarrow> jv list \<Rightarrow> jv list \<times> (error + jv list)" where
  "transform_each lib [] = ([], Inr [])"
| "transform_each lib (x # xs) =
     (case image_transform lib x of
        (x', Inl e) \<Rightarrow> (x' # xs, Inl e)
      | (x', Inr y) \<Rightarrow>
          (case transform_each lib xs of
             (xs', Inl e) \<Rightarrow> (x' # xs', Inl e)
           | (xs', Inr ys) \<Rightarrow> (x' # xs', Inr (y # ys))))"

text \<open>
  The instances of a list are the objects the request holds, so the request sees them
  mutated; the characters of a string and the keys of a dictionary are temporaries.
\<close>

fun store_instances :: "jv \<Rightarrow> jv \<Rightarrow> jv list \<Rightarrow> jv" where
  "store_instances (JDict kvs) (JList old) xs' = JDict (dict_update ''instances'' (JList xs') kvs)"
| "store_instances inputs seq xs' = inputs"

definition preprocess ::
  "transformer \<Rightarrow> 'v library \<Rightarrow> jv \<Rightarrow> (string \<times> string) list option \<Rightarrow> jv \<times> (error + jv)" where
  "preprocess self lib inputs headers =
     (case getitem inputs ''instances'' of
        Inl e \<Rightarrow> (inputs, Inl e)
      | Inr seq \<Rightarrow>
     (case iter seq of
        Inl e \<Rightarrow> (inputs, Inl e)
      | Inr xs \<Rightarrow>
     (case transform_each lib xs of
        (xs', Inl e) \<Rightarrow> (store_instances inputs seq xs', Inl e)
      | (xs', Inr ys) \<Rightarrow>
          (store_instances inputs seq xs', Inr (JDict [(''instances'', JList ys)])))))"

subsection \<open>postprocess and explain\<close>

definition postprocess :: "transformer \<Rightarrow> jv \<Rightarrow> jv" where
  "postprocess self inputs = inputs"

text \<open>
  \<open>explain\<close> returns the requests it has sent, in order, and its outcome. Awaiting the
  client is a call that comes back with the response or with the client's exception.
\<close>

definition explain ::
  "transformer \<Rightarrow> 'v library \<Rightarrow> jv \<Rightarrow> (string \<times> string) list option \<Rightarrow>
     http_request list \<times> (error + jv)" where
  "explain self lib request headers =
     (case explainer_host self of
        None \<Rightarrow> ([], Inl NotImplementedError)
      | Some host \<Rightarrow>
     (case str_format EXPLAINER_URL_FORMAT [host, name self] of
        Inl e \<Rightarrow> ([], Inl e)
      | Inr u \<Rightarrow>
          (let req = \<lparr>url = u, http_method = ''POST'', request_timeout = timeout self,
                      request_body = json_dumps lib request, request_headers = None\<rparr>
           in ([req],
               (case http_client self req of
                  Inl e \<Rightarrow> Inl e
                | Inr response \<Rightarrow>
                    if code response \<noteq> 200
                    then Inl (HTTPError (code response) (body response))
                    else json_loads lib (body response))))))"

subsection \<open>The libraries, modelled\<close>

text \<open>
  Modelled from the spec: \<^verbatim>\<open>base64\<close>, PIL and torchvision are not among the sources. The
  spec has the normalizer decode the base64 payload into an image buffer, convert it to a
  numeric tensor with the pixel values scaled to [0,1], and apply \<open>(value - 0.1307) / 0.3081\<close>
  per element, the result nested per image dimensionality. The definitions below say what
  that means call by call, for the calls of lines 29-32 and 46-48 as the module makes them.
  Floats are the real numbers they denote.
\<close>

text \<open>
  \<^verbatim>\<open>base64.b64decode(s)\<close> as line 46 calls it, with the default \<^verbatim>\<open>validate=False\<close>: a
  character outside the alphabet is skipped, four data characters give three bytes, padding
  that completes a quad ends the input, and input that ends inside a quad is an error.
  \<open>quad_pos\<close> is the position in the current quad, \<open>leftchar\<close> the bits not yet written,
  \<open>pads\<close> the padding characters seen since the last data character.
\<close>

definition b64_value :: "char \<Rightarrow> nat option" where
  "b64_value c =
     (let n = (of_char c :: nat)
      in if 65 \<le> n \<and> n \<le> 90 then Some (n - 65)
         else if 97 \<le> n \<and> n \<le> 122 then Some (n - 71)
         else if 48 \<le> n \<and> n \<le> 57 then Some (n + 4)
         else if c = CHR ''+'' then Some 62
         else if c = CHR ''/'' then Some 63
         else None)"

fun emit :: "nat \<Rightarrow> error + bytes \<Rightarrow> error + bytes" where
  "emit b (Inl e) = Inl e"
| "emit b (Inr bs) = Inr (of_nat b # bs)"

fun a2b_base64 :: "string \<Rightarrow> nat \<Rightarrow> nat \<Rightarrow> nat \<Rightarrow> error + bytes" where
  "a2b_base64 [] quad_pos leftchar pads =
     (if quad_pos = 0 then Inr [] else Inl (Raised ''binascii.Error''))"
| "a2b_base64 (c # cs) quad_pos leftchar pads =
     (if c = CHR ''='' then
        (if 2 \<le> quad_pos \<and> 4 \<le> quad_pos + (pads + 1) then Inr []
         else a2b_base64 cs quad_pos leftchar (if 2 \<le> quad_pos then pads + 1 else pads))
      else
        (case b64_value c of
           None \<Rightarrow> a2b_base64 cs quad_pos leftchar pads
         | Some v \<Rightarrow>
             if quad_pos = 0 then a2b_base64 cs 1 v 0
             else if quad_pos = 1 then
               emit (leftchar * 4 + v div 16) (a2b_base64 cs 2 (v mod 16) 0)
             else if quad_pos = 2 then
               emit (leftchar * 16 + v div 4) (a2b_base64 cs 3 (v mod 4) 0)
             else emit (leftchar * 64 + v) (a2b_base64 cs 0 0 0)))"

text \<open>A string must be ASCII; of the values of \<open>jv\<close> only a string can be decoded.\<close>

fun b64decode_py :: "jv \<Rightarrow> error + bytes" where
  "b64decode_py (JStr s) =
     (if list_all (\<lambda>c. (of_char c :: nat) < 128) s then a2b_base64 s 0 0 0 else Inl ValueError)"
| "b64decode_py _ = Inl TypeError"

text \<open>
  What the spec's words ``malformed base64'' say of a string at the least: it has a
  character that is neither of the alphabet nor padding, as the spec's example
  \<^verbatim>\<open>not-base64!!\<close> has.
\<close>

definition only_base64_chars :: "string \<Rightarrow> bool" where
  "only_base64_chars s = list_all (\<lambda>c. b64_value c \<noteq> None \<or> c = CHR ''='') s"

text \<open>
  An opened image: the number of channels, the size, and the bytes after the header, which
  PIL reads only when the pixels are asked for. The objects of the imaging libraries are
  images and tensors; a tensor is a list of planes, one per channel, each a list of rows.
\<close>

record image =
  bands :: nat
  width :: nat
  height :: nat
  raster :: bytes

datatype pyobj = PILImage image | Tensor "real list list list"

text \<open>
  \<^verbatim>\<open>Image.open\<close> on the two binary netpbm formats with 8-bit samples: \<^verbatim>\<open>P5\<close> (greyscale, one
  channel) and \<^verbatim>\<open>P6\<close> (RGB, three channels), the header being the magic number, width, height
  and the maximal value 255, separated by white space. A header that breaks off or holds a
  token that is not a number is a ValueError. The model knows no other format and no other
  sample width: it takes bytes that do not start as \<^verbatim>\<open>P5\<close> or \<^verbatim>\<open>P6\<close> as not an image, and
  reports another maximal value as outside the model; it is used on netpbm input only.
\<close>

definition is_space :: "8 word \<Rightarrow> bool" where
  "is_space b = (b = 9 \<or> b = 10 \<or> b = 11 \<or> b = 12 \<or> b = 13 \<or> b = 32)"

definition is_digit_byte :: "8 word \<Rightarrow> bool" where
  "is_digit_byte b = (48 \<le> unat b \<and> unat b \<le> 57)"

definition read_token :: "bytes \<Rightarrow> (nat \<times> bytes) option" where
  "read_token bs =
     (let s = dropWhile is_space bs;
          ds = takeWhile is_digit_byte s;
          rest = dropWhile is_digit_byte s
      in if ds = [] \<or> 10 < length ds then None
         else (case rest of
                 [] \<Rightarrow> Some (foldl (\<lambda>n d. 10 * n + (unat d - 48)) 0 ds, [])
               | r # rs \<Rightarrow>
                   if is_space r then Some (foldl (\<lambda>n d. 10 * n + (unat d - 48)) 0 ds, rs)
                   else None))"

definition Image_open_py :: "bytes \<Rightarrow> error + pyobj" where
  "Image_open_py bs =
     (case bs of
        p # k # w # rest \<Rightarrow>
          if p = 80 \<and> (k = 53 \<or> k = 54) \<and> is_space w then
            (case read_token rest of
               None \<Rightarrow> Inl ValueError
             | Some (xsize, r1) \<Rightarrow>
            (case read_token r1 of
               None \<Rightarrow> Inl ValueError
             | Some (ysize, r2) \<Rightarrow>
            (case read_token r2 of
               None \<Rightarrow> Inl ValueError
             | Some (maxval, r3) \<Rightarrow>
                 if maxval = 255
                 then Inr (PILImage \<lparr>bands = (if k = 53 then 1 else 3), width = xsize,
                                      height = ysize, raster = r3\<rparr>)
                 else if maxval = 0 \<or> 65536 \<le> maxval then Inl ValueError
                 else Inl (Raised ''netpbm sample width outside the model''))))
          else Inl (Raised ''PIL.UnidentifiedImageError'')
      | _ \<Rightarrow> Inl (Raised ''PIL.UnidentifiedImageError''))"

text \<open>
  \<^verbatim>\<open>ToTensor\<close> reads the pixels, failing when the file holds fewer than the header promises,
  and gives one plane per channel of the image, every sample divided by 255. It merges no
  channels, and the pipeline of lines 29-32 has no other step that would.
\<close>

definition sample_of :: "image \<Rightarrow> nat \<Rightarrow> nat \<Rightarrow> nat \<Rightarrow> 8 word" where
  "sample_of im c y x = raster im ! ((y * width im + x) * bands im + c)"

fun ToTensor_py :: "pyobj \<Rightarrow> error + pyobj" where
  "ToTensor_py (PILImage im) =
     (if length (raster im) < bands im * width im * height im then Inl (Raised ''OSError'')
      else Inr (Tensor
        (map (\<lambda>c. map (\<lambda>y. map (\<lambda>x. real (unat (sample_of im c y x)) / 255)
                                  [0..<width im])
                        [0..<height im])
             [0..<bands im])))"
| "ToTensor_py (Tensor t) = Inl TypeError"

text \<open>
  \<^verbatim>\<open>Normalize(mean, std)\<close> subtracts the mean and divides by the deviation, element by
  element. A one-element \<open>mean\<close> or \<open>std\<close>, as the module passes, serves every channel.
\<close>

definition channel_stat :: "real list \<Rightarrow> nat \<Rightarrow> real" where
  "channel_stat ms c = (if length ms = 1 then ms ! 0 else ms ! c)"

fun Normalize_py :: "real list \<Rightarrow> real list \<Rightarrow> pyobj \<Rightarrow> error + pyobj" where
  "Normalize_py mean std (PILImage im) = Inl TypeError"
| "Normalize_py mean std (Tensor t) =
     (if 0 \<in> set std then Inl ValueError
      else if (length mean = 1 \<or> length mean = length t) \<and>
              (length std = 1 \<or> length std = length t) then
        Inr (Tensor
          (map (\<lambda>c. map (map (\<lambda>v. (v - channel_stat mean c) / channel_stat std c)) (t ! c))
               [0..<length t]))
      else Inl (Raised ''RuntimeError''))"

fun tolist_py :: "pyobj \<Rightarrow> error + jv" where
  "tolist_py (Tensor t) = Inr (JList (map (\<lambda>plane. JList (map (\<lambda>row. JList (map JFloat row)) plane)) t))"
| "tolist_py (PILImage im) = Inl (Raised ''AttributeError'')"

text \<open>The modelled library; \<^verbatim>\<open>json\<close> stays a parameter.\<close>

definition py_library :: "(jv \<Rightarrow> string) \<Rightarrow> (string \<Rightarrow> error + jv) \<Rightarrow> pyobj library" where
  "py_library dumps loads =
     \<lparr>b64decode = b64decode_py, Image_open = Image_open_py, ToTensor = ToTensor_py,
      Normalize = Normalize_py, tolist = tolist_py, json_dumps = dumps, json_loads = loads\<rparr>"

subsection \<open>A concrete setting\<close>

text \<open>
  A stand-in library, a client that answers every request with a fixed status and body, and
  a request of two instances: the closed instances of the theorems below are stated on them.
\<close>

definition sample_library :: "nat library" where
  "sample_library =
     \<lparr>b64decode = (\<lambda>d. if d = JStr ''AAEC'' then Inr [0, 1, 2]
                       else if d = JStr ''aGVsbG8='' then Inr [104, 101, 108, 108, 111]
                       else Inl (Raised ''binascii.Error'')),
      Image_open = (\<lambda>bs. if bs = [0, 1, 2] then Inr 0 else Inl (Raised ''PIL.UnidentifiedImageError'')),
      ToTensor = (\<lambda>v. Inr (Suc v)),
      Normalize = (\<lambda>mean std v. Inr (Suc v)),
      tolist = (\<lambda>v. Inr (JList [JList [JList [JInt (int v)]]])),
      json_dumps = (\<lambda>v. ''{}''),
      json_loads = (\<lambda>s. if s = ''{\"explanations\": [1,2,3]}''
                         then Inr (JDict [(''explanations'', JList [JInt 1, JInt 2, JInt 3])])
                         else Inl (Raised ''json.JSONDecodeError''))\<rparr>"

definition sample_instances :: "jv list" where
  "sample_instances =
     [JDict [(''id'', JInt 7), (''data'', JStr ''AAEC'')], JDict [(''data'', JStr ''AAEC'')]]"

definition sample_request :: jv where
  "sample_request = JDict [(''instances'', JList sample_instances)]"

definition sample_client :: "int \<Rightarrow> string \<Rightarrow> http_request \<Rightarrow> error + http_response" where
  "sample_client c b req = Inr \<lparr>code = c, body = b\<rparr>"

definition sample_transformer :: "int \<Rightarrow> string \<Rightarrow> transformer" where
  "sample_transformer c b = ImageTransformer_init (sample_client c b) ''mnist'' (Some ''torchserve:8080'')"

definition sample_py_library :: "pyobj library" where
  "sample_py_library = py_library (json_dumps sample_library) (json_loads sample_library)"

lemmas py_defs = sample_py_library_def py_library_def b64_value_def Image_open_py_def
  read_token_def is_space_def is_digit_byte_def sample_of_def channel_stat_def

lemmas sample_defs = sample_library_def sample_instances_def sample_request_def
  sample_client_def sample_transformer_def ImageTransformer_init_def

section \<open>Properties\<close>

subsection \<open>Dictionaries and the URL template\<close>

lemma str_format_explainer_url:
  "str_format EXPLAINER_URL_FORMAT [h, n] =
     Inr (''http://'' @ h @ ''/v1/models/'' @ n @ '':explain'')"
  by (simp add: EXPLAINER_URL_FORMAT_def is_digit_def index_of_digits_def)

lemma map_of_dict_update: "map_of (dict_update k v kvs) = (map_of kvs)(k \<mapsto> v)"
  by (induction kvs) (auto simp: fun_eq_iff)

lemma iter_dict_update:
  "map_of kvs k \<noteq> None \<Longrightarrow> iter (JDict (dict_update k v kvs)) = iter (JDict kvs)"
  by (induction kvs) auto

lemma getitem_Inr_dict:
  "getitem x k = Inr d \<Longrightarrow> \<exists>kvs. x = JDict kvs \<and> map_of kvs k = Some d"
  by (cases x) (auto split: option.splits)

lemma getitem_dict_update_other:
  "k \<noteq> k' \<Longrightarrow> getitem (JDict (dict_update k' v kvs)) k = getitem (JDict kvs) k"
  by (simp add: map_of_dict_update)

subsection \<open>One instance\<close>

text \<open>
  On the success path the module calls the decoder, the image parser, \<open>ToTensor\<close>,
  \<open>Normalize\<close> with the constants 0.1307 and 0.3081, and \<open>tolist\<close>, in that order, and
  stores the result under \<open>data\<close>.
\<close>

lemma image_transform_success:
  assumes "map_of kvs ''data'' = Some d" and "b64decode lib d = Inr bs"
    and "Image_open lib bs = Inr img" and "ToTensor lib img = Inr t"
    and "Normalize lib [0.1307] [0.3081] t = Inr t'" and "tolist lib t' = Inr v"
  shows "image_transform lib (JDict kvs) =
           (JDict (dict_update ''data'' v kvs), Inr (JDict (dict_update ''data'' v kvs)))"
  using assms by (simp add: image_transform_def image_processing_def)

lemma image_transform_Inl:
  "snd (image_transform lib x) = Inl e \<Longrightarrow> fst (image_transform lib x) = x"
  by (auto simp: image_transform_def split: sum.splits)

lemma image_transform_Inr:
  assumes "snd (image_transform lib x) = Inr y"
  shows "\<exists>kvs d bs img t v.
           x = JDict kvs \<and> map_of kvs ''data'' = Some d \<and> b64decode lib d = Inr bs \<and>
           Image_open lib bs = Inr img \<and> image_processing lib img = Inr t \<and>
           tolist lib t = Inr v \<and> y = JDict (dict_update ''data'' v kvs) \<and>
           fst (image_transform lib x) = y"
proof -
  from assms obtain d where d: "getitem x ''data'' = Inr d"
    by (auto simp: image_transform_def split: sum.splits)
  then obtain kvs where x: "x = JDict kvs" and m: "map_of kvs ''data'' = Some d"
    using getitem_Inr_dict by blast
  from assms d x show ?thesis
    using m by (auto simp: image_transform_def split: sum.splits)
qed

lemma image_transform_frame:
  assumes "snd (image_transform lib x) = Inr y"
  shows "iter y = iter x \<and> (\<forall>k. k \<noteq> ''data'' \<longrightarrow> getitem y k = getitem x k)"
proof -
  from image_transform_Inr [OF assms] obtain kvs d v
    where x: "x = JDict kvs" and d: "map_of kvs ''data'' = Some d"
      and y: "y = JDict (dict_update ''data'' v kvs)"
    by blast
  have "iter y = iter x"
    unfolding x y by (rule iter_dict_update) (simp add: d)
  moreover have "getitem y k = getitem x k" if "k \<noteq> ''data''" for k
    unfolding x y using that by (rule getitem_dict_update_other)
  ultimately show ?thesis by simp
qed

lemma image_transform_data_only:
  assumes same: "getitem x' ''data'' = getitem x ''data''"
    and ok: "snd (image_transform lib x) = Inr y"
  shows "\<exists>y'. snd (image_transform lib x') = Inr y' \<and> getitem y' ''data'' = getitem y ''data''"
proof -
  from image_transform_Inr [OF ok] obtain kvs d bs img t v
    where x: "x = JDict kvs" and d: "map_of kvs ''data'' = Some d"
      and run: "b64decode lib d = Inr bs" "Image_open lib bs = Inr img"
        "image_processing lib img = Inr t" "tolist lib t = Inr v"
      and y: "y = JDict (dict_update ''data'' v kvs)"
    by blast
  from same x d have "getitem x' ''data'' = Inr d" by simp
  then obtain kvs' where x': "x' = JDict kvs'" and d': "map_of kvs' ''data'' = Some d"
    using getitem_Inr_dict by blast
  have "snd (image_transform lib x') = Inr (JDict (dict_update ''data'' v kvs'))"
    using d' run by (simp add: image_transform_def x')
  then show ?thesis
    by (simp add: y map_of_dict_update)
qed

lemma sample_image_transform:
  "map_of kvs ''data'' = Some (JStr ''AAEC'') \<Longrightarrow>
     image_transform sample_library (JDict kvs) =
       (JDict (dict_update ''data'' (JList [JList [JList [JInt 2]]]) kvs),
        Inr (JDict (dict_update ''data'' (JList [JList [JList [JInt 2]]]) kvs)))"
  by (simp add: image_transform_def image_processing_def sample_library_def)

subsection \<open>The tensor\<close>

text \<open>The decoder skips every character that is neither of the alphabet nor padding.\<close>

lemma a2b_base64_filter:
  "a2b_base64 (filter (\<lambda>c. b64_value c \<noteq> None \<or> c = CHR ''='') s) q l p = a2b_base64 s q l p"
  by (induction s arbitrary: q l p) (auto split: option.splits)

lemma image_processing_py:
  assumes "ToTensor lib = ToTensor_py" and "Normalize lib = Normalize_py"
    and "bands im * width im * height im \<le> length (raster im)"
  shows "image_processing lib (PILImage im) =
           Inr (Tensor
             (map (\<lambda>c. map (\<lambda>y. map (\<lambda>x. (real (unat (sample_of im c y x)) / 255 - 0.1307) / 0.3081)
                                       [0..<width im])
                             [0..<height im])
                  [0..<bands im]))"
  using assms by (simp add: image_processing_def channel_stat_def comp_def)

text \<open>
  C1, as amended: with the libraries as modelled, for every instance whose \<open>data\<close> the
  decoder accepts and whose bytes open as an image of 8-bit samples with all its pixels
  present, the normalizer succeeds and replaces \<open>data\<close> by a nested sequence of one plane per channel of
  the image (one for a greyscale image, three for an RGB image: no step converts to a single
  channel), each plane a list of rows, each element \<open>(v - 0.1307) / 0.3081\<close> for the sample
  scaled to \<open>v\<close> in [0,1]; the updated instance is returned and every other field is kept.
\<close>

theorem image_transform_normalizes:
  assumes "ToTensor lib = ToTensor_py" and "Normalize lib = Normalize_py"
    and "tolist lib = tolist_py"
    and "map_of kvs ''data'' = Some d"
    and "b64decode lib d = Inr bs"
    and "Image_open lib bs = Inr (PILImage im)"
    and "bands im * width im * height im \<le> length (raster im)"
  shows "image_transform lib (JDict kvs) =
           (JDict (dict_update ''data''
              (JList (map (\<lambda>c. JList (map (\<lambda>y. JList (map (\<lambda>x.
                 JFloat ((real (unat (sample_of im c y x)) / 255 - 0.1307) / 0.3081))
                 [0..<width im])) [0..<height im])) [0..<bands im])) kvs),
            Inr (JDict (dict_update ''data''
              (JList (map (\<lambda>c. JList (map (\<lambda>y. JList (map (\<lambda>x.
                 JFloat ((real (unat (sample_of im c y x)) / 255 - 0.1307) / 0.3081))
                 [0..<width im])) [0..<height im])) [0..<bands im])) kvs))) \<and>
         (\<forall>c y x. 0 \<le> real (unat (sample_of im c y x)) / 255 \<and>
                  real (unat (sample_of im c y x)) / 255 \<le> 1)"
proof -
  have range: "0 \<le> real (unat w) / 255 \<and> real (unat w) / 255 \<le> 1" for w :: "8 word"
  proof -
    have "unat w < 2 ^ LENGTH(8)" by (rule unsigned_less)
    then have "unat w \<le> 255" by simp
    then have "real (unat w) \<le> real 255" by (rule of_nat_mono)
    moreover have "0 \<le> real (unat w)" by (rule of_nat_0_le_iff)
    ultimately show ?thesis by simp
  qed
  have "image_transform lib (JDict kvs) =
           (JDict (dict_update ''data''
              (JList (map (\<lambda>c. JList (map (\<lambda>y. JList (map (\<lambda>x.
                 JFloat ((real (unat (sample_of im c y x)) / 255 - 0.1307) / 0.3081))
                 [0..<width im])) [0..<height im])) [0..<bands im])) kvs),
            Inr (JDict (dict_update ''data''
              (JList (map (\<lambda>c. JList (map (\<lambda>y. JList (map (\<lambda>x.
                 JFloat ((real (unat (sample_of im c y x)) / 255 - 0.1307) / 0.3081))
                 [0..<width im])) [0..<height im])) [0..<bands im])) kvs)))"
    using assms(3-6) image_processing_py [OF assms(1,2,7)]
    by (simp add: image_transform_def comp_def)
  with range show ?thesis by blast
qed

theorem image_transform_normalizes_witness:
  "map_of [(''id'', JInt 7), (''data'', JStr ''UDUKMiAxCjI1NQoA/w=='')] ''data'' =
     Some (JStr ''UDUKMiAxCjI1NQoA/w=='') \<and>
   b64decode sample_py_library (JStr ''UDUKMiAxCjI1NQoA/w=='') =
     Inr [80, 53, 10, 50, 32, 49, 10, 50, 53, 53, 10, 0, 255] \<and>
   Image_open sample_py_library [80, 53, 10, 50, 32, 49, 10, 50, 53, 53, 10, 0, 255] =
     Inr (PILImage \<lparr>bands = 1, width = 2, height = 1, raster = [0, 255]\<rparr>) \<and>
   image_transform sample_py_library
       (JDict [(''id'', JInt 7), (''data'', JStr ''UDUKMiAxCjI1NQoA/w=='')]) =
     (JDict [(''id'', JInt 7),
             (''data'', JList [JList [JList [JFloat (- (1307 / 3081)), JFloat (8693 / 3081)]]])],
      Inr (JDict [(''id'', JInt 7),
             (''data'', JList [JList [JList [JFloat (- (1307 / 3081)), JFloat (8693 / 3081)]]])]))"
proof -
  let ?im = "\<lparr>bands = 1, width = 2, height = 1, raster = [0, 255 :: 8 word]\<rparr>"
  have l1: "ToTensor sample_py_library = ToTensor_py"
    and l2: "Normalize sample_py_library = Normalize_py"
    and l3: "tolist sample_py_library = tolist_py"
    by (simp_all add: py_defs)
  have d: "map_of [(''id'', JInt 7), (''data'', JStr ''UDUKMiAxCjI1NQoA/w=='')] ''data'' =
     Some (JStr ''UDUKMiAxCjI1NQoA/w=='')"
    by simp
  have b: "b64decode sample_py_library (JStr ''UDUKMiAxCjI1NQoA/w=='') =
     Inr [80, 53, 10, 50, 32, 49, 10, 50, 53, 53, 10, 0, 255]"
    by (simp add: py_defs)
  have i: "Image_open sample_py_library [80, 53, 10, 50, 32, 49, 10, 50, 53, 53, 10, 0, 255] =
     Inr (PILImage ?im)"
    by (simp add: py_defs)
  have n: "bands ?im * width ?im * height ?im \<le> length (raster ?im)"
    by simp
  from image_transform_normalizes [OF l1 l2 l3 d b i n] d b i
  show ?thesis
    by (simp add: sample_of_def upt_conv_Cons)
qed

text \<open>
  An RGB image does not come out single-channel: the 1 x 1 image with the pixel
  (255, 0, 51) gives three planes.
\<close>

theorem single_channel_counterexample:
  "b64decode sample_py_library (JStr ''UDYKMSAxCjI1NQr/ADM='') =
     Inr [80, 54, 10, 49, 32, 49, 10, 50, 53, 53, 10, 255, 0, 51] \<and>
   Image_open sample_py_library [80, 54, 10, 49, 32, 49, 10, 50, 53, 53, 10, 255, 0, 51] =
     Inr (PILImage \<lparr>bands = 3, width = 1, height = 1, raster = [255, 0, 51]\<rparr>) \<and>
   snd (image_transform sample_py_library (JDict [(''data'', JStr ''UDYKMSAxCjI1NQr/ADM='')])) =
     Inr (JDict [(''data'', JList
       [JList [JList [JFloat (8693 / 3081)]],
        JList [JList [JFloat (- (1307 / 3081))]],
        JList [JList [JFloat (231 / 1027)]]])])"
  by (simp add: image_transform_def image_processing_def py_defs upt_conv_Cons)

subsection \<open>Error paths\<close>

text \<open>
  C5, as amended: when the decoder rejects the \<open>data\<close> value, or accepts it and the image
  parser rejects the decoded bytes, \<open>image_transform\<close> fails with that decode error; and
  whenever \<open>image_transform\<close> fails, at whichever step, it leaves the whole instance,
  \<open>data\<close> included, as it was. What the decoder rejects is input that ends inside a quad,
  not a character outside the alphabet.
\<close>

theorem image_transform_error_paths:
  "(getitem inst ''data'' = Inr d \<and>
      (b64decode lib d = Inl e \<or> (\<exists>bs. b64decode lib d = Inr bs \<and> Image_open lib bs = Inl e)) \<longrightarrow>
      image_transform lib inst = (inst, Inl e)) \<and>
   (\<forall>e'. snd (image_transform lib inst) = Inl e' \<longrightarrow> image_transform lib inst = (inst, Inl e'))"
proof (intro conjI allI impI)
  assume "getitem inst ''data'' = Inr d \<and>
      (b64decode lib d = Inl e \<or> (\<exists>bs. b64decode lib d = Inr bs \<and> Image_open lib bs = Inl e))"
  then show "image_transform lib inst = (inst, Inl e)"
    by (auto simp: image_transform_def)
next
  fix e'
  assume "snd (image_transform lib inst) = Inl e'"
  then show "image_transform lib inst = (inst, Inl e')"
    using image_transform_Inl [of lib inst e'] by (simp add: prod_eq_iff)
qed

theorem image_transform_error_paths_witness:
  "getitem (JDict [(''id'', JInt 1), (''data'', JStr ''not-base64!!'')]) ''data'' =
     Inr (JStr ''not-base64!!'') \<and>
   b64decode sample_py_library (JStr ''not-base64!!'') = Inl (Raised ''binascii.Error'') \<and>
   image_transform sample_py_library (JDict [(''id'', JInt 1), (''data'', JStr ''not-base64!!'')]) =
     (JDict [(''id'', JInt 1), (''data'', JStr ''not-base64!!'')], Inl (Raised ''binascii.Error'')) \<and>
   getitem (JDict [(''data'', JStr ''aGVsbG8='')]) ''data'' = Inr (JStr ''aGVsbG8='') \<and>
   b64decode sample_py_library (JStr ''aGVsbG8='') = Inr [104, 101, 108, 108, 111] \<and>
   Image_open sample_py_library [104, 101, 108, 108, 111] =
     Inl (Raised ''PIL.UnidentifiedImageError'') \<and>
   image_transform sample_py_library (JDict [(''data'', JStr ''aGVsbG8='')]) =
     (JDict [(''data'', JStr ''aGVsbG8='')], Inl (Raised ''PIL.UnidentifiedImageError'')) \<and>
   snd (image_transform sample_py_library (JDict [(''data'', JStr ''UDUKMiAyCjI1NQoA'')])) =
     Inl (Raised ''OSError'') \<and>
   image_transform sample_py_library (JDict [(''data'', JStr ''UDUKMiAyCjI1NQoA'')]) =
     (JDict [(''data'', JStr ''UDUKMiAyCjI1NQoA'')], Inl (Raised ''OSError''))"
proof -
  have g1: "getitem (JDict [(''id'', JInt 1), (''data'', JStr ''not-base64!!'')]) ''data'' =
     Inr (JStr ''not-base64!!'')"
    by simp
  have d1: "b64decode sample_py_library (JStr ''not-base64!!'') = Inl (Raised ''binascii.Error'')"
    by (simp add: py_defs)
  have g2: "getitem (JDict [(''data'', JStr ''aGVsbG8='')]) ''data'' = Inr (JStr ''aGVsbG8='')"
    by simp
  have d2: "b64decode sample_py_library (JStr ''aGVsbG8='') = Inr [104, 101, 108, 108, 111]"
    by (simp add: py_defs)
  have o2: "Image_open sample_py_library [104, 101, 108, 108, 111] =
      Inl (Raised ''PIL.UnidentifiedImageError'')"
    by (simp add: py_defs)
  have t3: "snd (image_transform sample_py_library (JDict [(''data'', JStr ''UDUKMiAyCjI1NQoA'')])) =
     Inl (Raised ''OSError'')"
    by (simp add: image_transform_def image_processing_def py_defs)
  have a1: "image_transform sample_py_library
      (JDict [(''id'', JInt 1), (''data'', JStr ''not-base64!!'')]) =
     (JDict [(''id'', JInt 1), (''data'', JStr ''not-base64!!'')], Inl (Raised ''binascii.Error''))"
    using image_transform_error_paths [of "JDict [(''id'', JInt 1), (''data'', JStr ''not-base64!!'')]"
        "JStr ''not-base64!!''" sample_py_library "Raised ''binascii.Error''"] g1 d1
    by blast
  have a2: "image_transform sample_py_library (JDict [(''data'', JStr ''aGVsbG8='')]) =
     (JDict [(''data'', JStr ''aGVsbG8='')], Inl (Raised ''PIL.UnidentifiedImageError''))"
    using image_transform_error_paths [of "JDict [(''data'', JStr ''aGVsbG8='')]"
        "JStr ''aGVsbG8=''" sample_py_library "Raised ''PIL.UnidentifiedImageError''"] g2 d2 o2
    by blast
  have a3: "image_transform sample_py_library (JDict [(''data'', JStr ''UDUKMiAyCjI1NQoA'')]) =
     (JDict [(''data'', JStr ''UDUKMiAyCjI1NQoA'')], Inl (Raised ''OSError''))"
    using image_transform_error_paths [of "JDict [(''data'', JStr ''UDUKMiAyCjI1NQoA'')]"
        d sample_py_library e] t3
    by blast
  from g1 d1 a1 g2 d2 o2 a2 t3 a3 show ?thesis by (intro conjI)
qed

text \<open>
  A malformed string need not fail: of a string with two characters outside the alphabet
  the decoder skips them, the rest is a 1 x 1 greyscale image, and the normalizer succeeds.
\<close>

theorem malformed_base64_counterexample:
  "\<not> only_base64_chars ''UDUK!!MSAxCjI1NQoA'' \<and>
   b64decode sample_py_library (JStr ''UDUK!!MSAxCjI1NQoA'') =
     Inr [80, 53, 10, 49, 32, 49, 10, 50, 53, 53, 10, 0] \<and>
   image_transform sample_py_library (JDict [(''data'', JStr ''UDUK!!MSAxCjI1NQoA'')]) =
     (JDict [(''data'', JList [JList [JList [JFloat (- (1307 / 3081))]]])],
      Inr (JDict [(''data'', JList [JList [JList [JFloat (- (1307 / 3081))]]])]))"
  by (simp add: only_base64_chars_def image_transform_def image_processing_def py_defs
      upt_conv_Cons)

subsection \<open>preprocess\<close>

lemma transform_each_all2:
  "snd (transform_each lib xs) = Inr ys \<Longrightarrow>
     list_all2 (\<lambda>x y. snd (image_transform lib x) = Inr y) xs ys"
proof (induction xs arbitrary: ys)
  case Nil
  then show ?case by simp
next
  case (Cons x xs)
  then show ?case
    by (auto split: prod.splits sum.splits)
qed

lemma transform_each_ok:
  "\<forall>x\<in>set xs. \<exists>y. snd (image_transform lib x) = Inr y \<Longrightarrow>
     \<exists>ys. snd (transform_each lib xs) = Inr ys"
proof (induction xs)
  case Nil
  then show ?case by simp
next
  case (Cons x xs)
  then obtain y ys where "snd (image_transform lib x) = Inr y"
    and "snd (transform_each lib xs) = Inr ys"
    by auto
  then show ?case
    by (cases "image_transform lib x"; cases "transform_each lib xs") simp
qed

lemma transform_each_data_only:
  assumes "list_all2 (\<lambda>x' x. getitem x' ''data'' = getitem x ''data'') xs' xs"
    and "snd (transform_each lib xs) = Inr ys"
  shows "\<exists>ys'. snd (transform_each lib xs') = Inr ys' \<and>
           list_all2 (\<lambda>y' y. getitem y' ''data'' = getitem y ''data'') ys' ys"
  using assms
proof (induction xs' xs arbitrary: ys rule: list_all2_induct)
  case Nil
  then show ?case by simp
next
  case (Cons x' xs' x xs)
  from Cons.prems obtain y zs where y: "snd (image_transform lib x) = Inr y"
    and zs: "snd (transform_each lib xs) = Inr zs" and ys: "ys = y # zs"
    by (auto split: prod.splits sum.splits)
  from image_transform_data_only [OF Cons.hyps(1) y] obtain y'
    where y': "snd (image_transform lib x') = Inr y'"
      and dy: "getitem y' ''data'' = getitem y ''data''"
    by blast
  from Cons.IH [OF zs] obtain zs' where zs': "snd (transform_each lib xs') = Inr zs'"
    and dz: "list_all2 (\<lambda>y' y. getitem y' ''data'' = getitem y ''data'') zs' zs"
    by blast
  have "snd (transform_each lib (x' # xs')) = Inr (y' # zs')"
    using y' zs' by (cases "image_transform lib x'"; cases "transform_each lib xs'") simp
  then show ?case
    using dy dz ys by simp
qed

lemma preprocess_list:
  "getitem inputs ''instances'' = Inr (JList xs) \<Longrightarrow>
     snd (preprocess self lib inputs headers) =
       (case snd (transform_each lib xs) of
          Inl e \<Rightarrow> Inl e
        | Inr ys \<Rightarrow> Inr (JDict [(''instances'', JList ys)]))"
  by (simp add: preprocess_def split: prod.splits sum.splits)

lemma sample_preprocess:
  "snd (preprocess self sample_library sample_request None) =
     Inr (JDict [(''instances'', JList
       [JDict [(''id'', JInt 7), (''data'', JList [JList [JList [JInt 2]]])],
        JDict [(''data'', JList [JList [JList [JInt 2]]])]])])"
  by (simp add: preprocess_def sample_request_def sample_instances_def sample_image_transform)

text \<open>
  C2: for a request whose \<open>instances\<close> is a list of N instances that the normalizer accepts,
  \<open>preprocess\<close> returns a dictionary with the single key \<open>instances\<close> whose value is a list
  of N elements, the i-th being the normalizer's result on the i-th instance.
\<close>

theorem preprocess_maps_instances:
  assumes "getitem inputs ''instances'' = Inr (JList xs)"
    and "\<forall>x\<in>set xs. \<exists>y. snd (image_transform lib x) = Inr y"
  shows "\<exists>ys. snd (preprocess self lib inputs headers) = Inr (JDict [(''instances'', JList ys)]) \<and>
           length ys = length xs \<and>
           (\<forall>i<length xs. snd (image_transform lib (xs ! i)) = Inr (ys ! i))"
proof -
  from assms(2) obtain ys where ys: "snd (transform_each lib xs) = Inr ys"
    using transform_each_ok by blast
  then have "list_all2 (\<lambda>x y. snd (image_transform lib x) = Inr y) xs ys"
    by (rule transform_each_all2)
  then have "length ys = length xs"
    and "\<forall>i<length xs. snd (image_transform lib (xs ! i)) = Inr (ys ! i)"
    by (simp_all add: list_all2_conv_all_nth)
  moreover have "snd (preprocess self lib inputs headers) = Inr (JDict [(''instances'', JList ys)])"
    using assms(1) ys by (simp add: preprocess_list)
  ultimately show ?thesis by blast
qed

theorem preprocess_maps_instances_witness:
  "getitem sample_request ''instances'' = Inr (JList sample_instances) \<and>
   (\<exists>y. snd (image_transform sample_library (sample_instances ! 0)) = Inr y) \<and>
   (\<exists>y. snd (image_transform sample_library (sample_instances ! 1)) = Inr y) \<and>
   (\<exists>ys. snd (preprocess (sample_transformer 200 []) sample_library sample_request None) =
            Inr (JDict [(''instances'', JList ys)]) \<and>
          length ys = 2 \<and>
          snd (image_transform sample_library (sample_instances ! 0)) = Inr (ys ! 0) \<and>
          snd (image_transform sample_library (sample_instances ! 1)) = Inr (ys ! 1))"
proof -
  have h1: "getitem sample_request ''instances'' = Inr (JList sample_instances)"
    by (simp add: sample_request_def)
  have h2: "\<forall>x\<in>set sample_instances. \<exists>y. snd (image_transform sample_library x) = Inr y"
    by (simp add: sample_instances_def sample_image_transform)
  from preprocess_maps_instances [OF h1 h2, of "sample_transformer 200 []" None]
  obtain ys where
    "snd (preprocess (sample_transformer 200 []) sample_library sample_request None) =
       Inr (JDict [(''instances'', JList ys)])"
    and "length ys = length sample_instances"
    and "\<forall>i<length sample_instances.
           snd (image_transform sample_library (sample_instances ! i)) = Inr (ys ! i)"
    by blast
  moreover have "length sample_instances = 2"
    by (simp add: sample_instances_def)
  ultimately have "\<exists>ys. snd (preprocess (sample_transformer 200 []) sample_library sample_request None) =
            Inr (JDict [(''instances'', JList ys)]) \<and>
          length ys = 2 \<and>
          snd (image_transform sample_library (sample_instances ! 0)) = Inr (ys ! 0) \<and>
          snd (image_transform sample_library (sample_instances ! 1)) = Inr (ys ! 1)"
    by auto
  moreover have "\<exists>y. snd (image_transform sample_library (sample_instances ! 0)) = Inr y"
    "\<exists>y. snd (image_transform sample_library (sample_instances ! 1)) = Inr y"
    by (simp_all add: sample_instances_def sample_image_transform)
  ultimately show ?thesis using h1 by blast
qed

text \<open>
  C7: when \<open>preprocess\<close> succeeds on a list of instances, every output instance has the keys
  of its input instance in the same order and the same value under every key but \<open>data\<close>;
  and no other key is looked at: any request whose instances carry the same \<open>data\<close> values,
  whatever else they hold, is accepted too and gets the same \<open>data\<close> results.
\<close>

theorem preprocess_replaces_only_data:
  assumes inst: "getitem inputs ''instances'' = Inr (JList xs)"
    and ok: "snd (preprocess self lib inputs headers) = Inr out"
  shows "\<exists>ys. out = JDict [(''instances'', JList ys)] \<and> length ys = length xs \<and>
           (\<forall>i<length xs. iter (ys ! i) = iter (xs ! i) \<and>
              (\<forall>k. k \<noteq> ''data'' \<longrightarrow> getitem (ys ! i) k = getitem (xs ! i) k)) \<and>
           (\<forall>inputs' xs'.
              getitem inputs' ''instances'' = Inr (JList xs') \<and> length xs' = length xs \<and>
              (\<forall>i<length xs. getitem (xs' ! i) ''data'' = getitem (xs ! i) ''data'') \<longrightarrow>
              (\<exists>ys'. snd (preprocess self lib inputs' headers) =
                        Inr (JDict [(''instances'', JList ys')]) \<and>
                      length ys' = length xs \<and>
                      (\<forall>i<length xs. getitem (ys' ! i) ''data'' = getitem (ys ! i) ''data'')))"
proof -
  from ok inst obtain ys where ys: "snd (transform_each lib xs) = Inr ys"
    and out: "out = JDict [(''instances'', JList ys)]"
    by (auto simp: preprocess_list split: sum.splits)
  have all2: "list_all2 (\<lambda>x y. snd (image_transform lib x) = Inr y) xs ys"
    using ys by (rule transform_each_all2)
  then have len: "length ys = length xs"
    by (simp add: list_all2_lengthD)
  have frame: "\<forall>i<length xs. iter (ys ! i) = iter (xs ! i) \<and>
      (\<forall>k. k \<noteq> ''data'' \<longrightarrow> getitem (ys ! i) k = getitem (xs ! i) k)"
  proof (intro allI impI)
    fix i assume "i < length xs"
    with all2 have "snd (image_transform lib (xs ! i)) = Inr (ys ! i)"
      by (simp add: list_all2_conv_all_nth)
    then show "iter (ys ! i) = iter (xs ! i) \<and>
        (\<forall>k. k \<noteq> ''data'' \<longrightarrow> getitem (ys ! i) k = getitem (xs ! i) k)"
      by (rule image_transform_frame)
  qed
  have indep: "\<exists>ys'. snd (preprocess self lib inputs' headers) =
                        Inr (JDict [(''instances'', JList ys')]) \<and>
                      length ys' = length xs \<and>
                      (\<forall>i<length xs. getitem (ys' ! i) ''data'' = getitem (ys ! i) ''data'')"
    if h: "getitem inputs' ''instances'' = Inr (JList xs') \<and> length xs' = length xs \<and>
           (\<forall>i<length xs. getitem (xs' ! i) ''data'' = getitem (xs ! i) ''data'')"
    for inputs' xs'
  proof -
    from h have "list_all2 (\<lambda>x' x. getitem x' ''data'' = getitem x ''data'') xs' xs"
      by (simp add: list_all2_conv_all_nth)
    from transform_each_data_only [OF this ys] obtain ys'
      where ys': "snd (transform_each lib xs') = Inr ys'"
        and d: "list_all2 (\<lambda>y' y. getitem y' ''data'' = getitem y ''data'') ys' ys"
      by blast
    from d have "length ys' = length xs"
      and "\<forall>i<length xs. getitem (ys' ! i) ''data'' = getitem (ys ! i) ''data''"
      using len by (simp_all add: list_all2_conv_all_nth)
    moreover have "snd (preprocess self lib inputs' headers) =
        Inr (JDict [(''instances'', JList ys')])"
      using h ys' by (simp add: preprocess_list)
    ultimately show ?thesis by blast
  qed
  from out len frame indep show ?thesis by blast
qed

theorem preprocess_replaces_only_data_witness:
  "getitem sample_request ''instances'' = Inr (JList sample_instances) \<and>
   snd (preprocess (sample_transformer 200 []) sample_library sample_request None) =
     Inr (JDict [(''instances'', JList
       [JDict [(''id'', JInt 7), (''data'', JList [JList [JList [JInt 2]]])],
        JDict [(''data'', JList [JList [JList [JInt 2]]])]])]) \<and>
   (\<exists>ys. JDict [(''instances'', JList
       [JDict [(''id'', JInt 7), (''data'', JList [JList [JList [JInt 2]]])],
        JDict [(''data'', JList [JList [JList [JInt 2]]])]])] = JDict [(''instances'', JList ys)] \<and>
      length ys = length sample_instances \<and>
      (\<forall>i<length sample_instances. iter (ys ! i) = iter (sample_instances ! i) \<and>
         (\<forall>k. k \<noteq> ''data'' \<longrightarrow> getitem (ys ! i) k = getitem (sample_instances ! i) k)) \<and>
      (\<forall>inputs' xs'.
         getitem inputs' ''instances'' = Inr (JList xs') \<and> length xs' = length sample_instances \<and>
         (\<forall>i<length sample_instances.
            getitem (xs' ! i) ''data'' = getitem (sample_instances ! i) ''data'') \<longrightarrow>
         (\<exists>ys'. snd (preprocess (sample_transformer 200 []) sample_library inputs' None) =
                   Inr (JDict [(''instances'', JList ys')]) \<and>
                 length ys' = length sample_instances \<and>
                 (\<forall>i<length sample_instances.
                    getitem (ys' ! i) ''data'' = getitem (ys ! i) ''data''))))"
proof -
  have h1: "getitem sample_request ''instances'' = Inr (JList sample_instances)"
    by (simp add: sample_request_def)
  have h2: "snd (preprocess (sample_transformer 200 []) sample_library sample_request None) =
     Inr (JDict [(''instances'', JList
       [JDict [(''id'', JInt 7), (''data'', JList [JList [JList [JInt 2]]])],
        JDict [(''data'', JList [JList [JList [JInt 2]]])]])])"
    by (rule sample_preprocess)
  show ?thesis
    by (intro conjI h1 h2 preprocess_replaces_only_data [OF h1 h2])
qed

subsection \<open>postprocess\<close>

text \<open>C8: \<open>postprocess\<close> is the identity: it returns its input unchanged.\<close>

theorem postprocess_identity: "postprocess self x = x"
  by (simp add: postprocess_def)

theorem postprocess_identity_witness:
  "postprocess (sample_transformer 200 []) sample_request = sample_request"
  by (rule postprocess_identity)

subsection \<open>explain\<close>

text \<open>
  C3: with an explainer host configured and a response \<open>r\<close> from the upstream, \<open>explain\<close>
  returns a value only when the status of \<open>r\<close> is 200, and then it is the JSON parse of the
  body of \<open>r\<close>; for every other status it fails with an HTTP error carrying the status code
  and the body of \<open>r\<close>.
\<close>

theorem explain_response:
  assumes host: "explainer_host self = Some h"
    and resp: "http_client self
                 \<lparr>url = ''http://'' @ h @ ''/v1/models/'' @ name self @ '':explain'',
                  http_method = ''POST'', request_timeout = timeout self,
                  request_body = json_dumps lib request, request_headers = None\<rparr> = Inr r"
  shows "(code r = 200 \<longrightarrow> snd (explain self lib request headers) = json_loads lib (body r)) \<and>
         (code r \<noteq> 200 \<longrightarrow>
            snd (explain self lib request headers) = Inl (HTTPError (code r) (body r))) \<and>
         (\<forall>v. snd (explain self lib request headers) = Inr v \<longrightarrow>
            code r = 200 \<and> json_loads lib (body r) = Inr v)"
  using host resp by (simp add: explain_def str_format_explainer_url Let_def)

theorem explain_response_witness:
  "explainer_host (sample_transformer 200 ''{\"explanations\": [1,2,3]}'') = Some ''torchserve:8080'' \<and>
   snd (explain (sample_transformer 200 ''{\"explanations\": [1,2,3]}'')
          sample_library sample_request None) =
     Inr (JDict [(''explanations'', JList [JInt 1, JInt 2, JInt 3])]) \<and>
   snd (explain (sample_transformer 500 ''server error'') sample_library sample_request None) =
     Inl (HTTPError 500 ''server error'')"
proof -
  have host: "explainer_host (sample_transformer c b) = Some ''torchserve:8080''" for c b
    by (simp add: sample_defs)
  have resp: "http_client (sample_transformer c b)
      \<lparr>url = ''http://'' @ ''torchserve:8080'' @ ''/v1/models/'' @
               name (sample_transformer c b) @ '':explain'',
       http_method = ''POST'', request_timeout = timeout (sample_transformer c b),
       request_body = json_dumps sample_library sample_request, request_headers = None\<rparr> =
      Inr \<lparr>code = c, body = b\<rparr>" for c b
    by (simp add: sample_defs)
  from explain_response [OF host resp, of 200 "''{\"explanations\": [1,2,3]}''" None]
  have "snd (explain (sample_transformer 200 ''{\"explanations\": [1,2,3]}'')
          sample_library sample_request None) =
     Inr (JDict [(''explanations'', JList [JInt 1, JInt 2, JInt 3])])"
    by (simp add: sample_library_def)
  moreover from explain_response [OF host resp, of 500 "''server error''" None]
  have "snd (explain (sample_transformer 500 ''server error'') sample_library sample_request None) =
     Inl (HTTPError 500 ''server error'')"
    by simp
  ultimately show ?thesis using host by simp
qed

text \<open>An exception of the client, a timeout for one, comes out of \<open>explain\<close> as it is.\<close>

lemma explain_client_error:
  assumes "explainer_host self = Some h"
    and "http_client self
           \<lparr>url = ''http://'' @ h @ ''/v1/models/'' @ name self @ '':explain'',
            http_method = ''POST'', request_timeout = timeout self,
            request_body = json_dumps lib request, request_headers = None\<rparr> = Inl e"
  shows "snd (explain self lib request headers) = Inl e"
  using assms by (simp add: explain_def str_format_explainer_url Let_def)

text \<open>
  C4: with no explainer host configured, \<open>explain\<close> fails with NotImplementedError for every
  request and every header mapping, and sends no HTTP request.
\<close>

theorem explain_not_implemented:
  "explainer_host self = None \<Longrightarrow>
     explain self lib request headers = ([], Inl NotImplementedError)"
  by (simp add: explain_def)

theorem explain_not_implemented_witness:
  "explainer_host (ImageTransformer_init (sample_client 200 []) ''mnist'' None) = None \<and>
   explain (ImageTransformer_init (sample_client 200 []) ''mnist'' None)
     sample_library sample_request None = ([], Inl NotImplementedError)"
proof -
  have h: "explainer_host (ImageTransformer_init (sample_client 200 []) ''mnist'' None) = None"
    by (simp add: ImageTransformer_init_def)
  from explain_not_implemented [OF h] h show ?thesis by simp
qed

text \<open>
  C9: with an explainer host \<open>h\<close> configured, \<open>explain\<close> sends exactly one request, whatever
  the upstream answers: a POST to \<^verbatim>\<open>http://h/v1/models/<name>:explain\<close> whose body is the
  JSON serialisation of the request and whose timeout is the object's \<open>timeout\<close>, which the
  constructor sets to 100.
\<close>

theorem explain_request:
  "(explainer_host self = Some h \<longrightarrow>
      fst (explain self lib request headers) =
        [\<lparr>url = ''http://'' @ h @ ''/v1/models/'' @ name self @ '':explain'',
          http_method = ''POST'', request_timeout = timeout self,
          request_body = json_dumps lib request, request_headers = None\<rparr>]) \<and>
   timeout (ImageTransformer_init client n host) = 100 \<and>
   name (ImageTransformer_init client n host) = n \<and>
   explainer_host (ImageTransformer_init client n host) = host"
  by (simp add: explain_def str_format_explainer_url Let_def ImageTransformer_init_def)

theorem explain_request_witness:
  "explainer_host (sample_transformer 200 []) = Some ''torchserve:8080'' \<and>
   fst (explain (sample_transformer 200 []) sample_library sample_request None) =
     [\<lparr>url = ''http://torchserve:8080/v1/models/mnist:explain'', http_method = ''POST'',
       request_timeout = 100, request_body = ''{}'', request_headers = None\<rparr>]"
proof -
  have h: "explainer_host (sample_transformer 200 []) = Some ''torchserve:8080''"
    by (simp add: sample_defs)
  from explain_request [of "sample_transformer 200 []" "''torchserve:8080''" sample_library
      sample_request None "sample_client 200 []" "''mnist''" "Some ''torchserve:8080''"] h
  show ?thesis by (simp add: sample_defs)
qed

text \<open>
  C10: \<open>explain\<close> ignores its \<open>headers\<close> argument: for any two header mappings (None
  included) it sends the same requests and has the same outcome, and no request it sends
  carries headers.
\<close>

theorem explain_ignores_headers:
  "explain self lib request h1 = explain self lib request h2 \<and>
   set (map request_headers (fst (explain self lib request h1))) \<subseteq> {None}"
  by (simp add: explain_def Let_def split: option.splits sum.splits)

theorem explain_ignores_headers_witness:
  "explain (sample_transformer 200 []) sample_library sample_request None =
     explain (sample_transformer 200 []) sample_library sample_request
       (Some [(''authorization'', ''Bearer t'')]) \<and>
   set (map request_headers
     (fst (explain (sample_transformer 200 []) sample_library sample_request None))) \<subseteq> {None}"
  by (rule explain_ignores_headers)

subsection \<open>The predictor host\<close>

text \<open>
  The constructor stores its host argument in both host attributes, so an object fresh from
  the constructor has the two equal.
\<close>

lemma ImageTransformer_init_hosts:
  "explainer_host (ImageTransformer_init client n host) =
     predictor_host (ImageTransformer_init client n host)"
  by (simp add: ImageTransformer_init_def)

text \<open>
  C6, as amended: \<open>preprocess\<close> and \<open>postprocess\<close> do not depend on the configured predictor
  host, and no operation reads the attribute \<open>predictor_host\<close>; but the constructor stores
  the configured predictor host as the explainer host as well, so \<open>explain\<close> does depend on
  it: it posts to \<^verbatim>\<open>http://<predictor host>/v1/models/<name>:explain\<close>, and is not implemented
  when that host is None.
\<close>

theorem predictor_host_decides_explain:
  "preprocess (ImageTransformer_init client n h1) lib inputs headers =
     preprocess (ImageTransformer_init client n h2) lib inputs headers \<and>
   postprocess (ImageTransformer_init client n h1) x =
     postprocess (ImageTransformer_init client n h2) x \<and>
   explain (ImageTransformer_init client n None) lib request headers =
     ([], Inl NotImplementedError) \<and>
   map url (fst (explain (ImageTransformer_init client n (Some h)) lib request headers)) =
     [''http://'' @ h @ ''/v1/models/'' @ n @ '':explain''] \<and>
   explain (self\<lparr>predictor_host := p\<rparr>) lib request headers =
     explain self lib request headers"
  by (simp add: preprocess_def postprocess_def explain_def ImageTransformer_init_def
      str_format_explainer_url Let_def split: option.splits)

text \<open>
  Two configurations that differ only in the predictor host: \<open>explain\<close> sends its request
  to different URLs.
\<close>

theorem predictor_host_counterexample:
  "name (ImageTransformer_init (sample_client 200 []) ''mnist'' (Some ''torchserve:8080'')) =
     name (ImageTransformer_init (sample_client 200 []) ''mnist'' (Some ''other:9000'')) \<and>
   predictor_host (ImageTransformer_init (sample_client 200 []) ''mnist'' (Some ''torchserve:8080'')) \<noteq>
     predictor_host (ImageTransformer_init (sample_client 200 []) ''mnist'' (Some ''other:9000'')) \<and>
   fst (explain (ImageTransformer_init (sample_client 200 []) ''mnist'' (Some ''torchserve:8080''))
          sample_library sample_request None) =
     [\<lparr>url = ''http://torchserve:8080/v1/models/mnist:explain'', http_method = ''POST'',
       request_timeout = 100, request_body = ''{}'', request_headers = None\<rparr>] \<and>
   fst (explain (ImageTransformer_init (sample_client 200 []) ''mnist'' (Some ''other:9000''))
          sample_library sample_request None) =
     [\<lparr>url = ''http://other:9000/v1/models/mnist:explain'', http_method = ''POST'',
       request_timeout = 100, request_body = ''{}'', request_headers = None\<rparr>]"
  by (simp add: explain_def ImageTransformer_init_def str_format_explainer_url Let_def
      sample_library_def)

end
